theory Spec2Isabelle
  imports Complex_Main "HOL-Library.Word"
begin

unbundle bit_operations_syntax

section \<open>Numbers, vectors and the flag registry\<close>

text \<open>
  The source is JavaScript (\<^verbatim>\<open>src/server/systems/job.mjs\<close>). Its numbers are modelled
  as follows: objective kinds, modifier flags, progress counters and reward quantities
  are integers (\<^typ>\<open>int\<close>); coordinates, distances and the objective range are real
  numbers (\<^typ>\<open>real\<close>), so that \<^verbatim>\<open><=\<close>, \<^verbatim>\<open>>=\<close> and \<^verbatim>\<open>-=\<close> are the
  exact comparison and subtraction (no rounding, no NaN).
\<close>

record vector3 =
  x :: real
  y :: real
  z :: real

definition Objectives_POINT :: int where "Objectives_POINT = 0"
definition Objectives_CAPTURE :: int where "Objectives_CAPTURE = 1"
definition Objectives_HOLD :: int where "Objectives_HOLD = 2"
definition Objectives_MASH :: int where "Objectives_MASH = 3"
definition Objectives_PLAYER :: int where "Objectives_PLAYER = 4"
definition Objectives_ORDER :: int where "Objectives_ORDER = 5"
definition Objectives_INFINITE :: int where "Objectives_INFINITE = 6"

definition Modifiers_MIN :: int where "Modifiers_MIN = 0"
definition Modifiers_ON_FOOT :: int where "Modifiers_ON_FOOT = 1"
definition Modifiers_IN_VEHICLE :: int where "Modifiers_IN_VEHICLE = 2"
definition Modifiers_PROGRESS :: int where "Modifiers_PROGRESS = 4"
definition Modifiers_SPAWN_VEHICLE :: int where "Modifiers_SPAWN_VEHICLE = 8"
definition Modifiers_REMOVE_VEHICLE :: int where "Modifiers_REMOVE_VEHICLE = 16"
definition Modifiers_PICKUP_PLAYER :: int where "Modifiers_PICKUP_PLAYER = 32"
definition Modifiers_DROPOFF_PLAYER :: int where "Modifiers_DROPOFF_PLAYER = 64"
definition Modifiers_KILL_PLAYER :: int where "Modifiers_KILL_PLAYER = 128"
definition Modifiers_REPAIR_PLAYER :: int where "Modifiers_REPAIR_PLAYER = 256"
definition Modifiers_ITEM_RESTRICTIONS :: int where "Modifiers_ITEM_RESTRICTIONS = 512"
definition Modifiers_MAX :: int where "Modifiers_MAX = 1024"

text \<open>
  JavaScript's \<^verbatim>\<open>&\<close> converts both operands to 32-bit two's complement integers
  and returns the signed reading of their bitwise conjunction.
\<close>

definition js_bitand :: "int \<Rightarrow> int \<Rightarrow> int" where
  "js_bitand a b = sint ((word_of_int a :: 32 word) AND word_of_int b)"

definition isFlagged :: "int \<Rightarrow> int \<Rightarrow> bool" where
  "isFlagged flags flagValue = (if js_bitand flags flagValue = flagValue then True else False)"

text \<open>
  Modelled from the spec: \<^verbatim>\<open>distance\<close> is imported from
  \<^verbatim>\<open>../utility/vector.mjs\<close>, which is not part of the sources at hand. The spec
  describes it as \<^verbatim>\<open>distance(pointA, pointB) -> number (Euclidean 3D)\<close>.
\<close>

definition distance :: "vector3 \<Rightarrow> vector3 \<Rightarrow> real" where
  "distance a b = sqrt ((x a - x b)\<^sup>2 + (y a - y b)\<^sup>2 + (z a - z b)\<^sup>2)"

section \<open>Objectives\<close>

record reward =
  reward_type :: string
  reward_prop :: string
  reward_quantity :: int

record animation =
  anim_dict :: string
  anim_name :: string
  anim_flags :: int
  anim_duration :: int

record marker_info =
  marker_type :: int
  marker_pos :: vector3
  marker_dir :: vector3
  marker_rot :: vector3
  marker_scale :: vector3
  marker_r :: int
  marker_g :: int
  marker_b :: int
  marker_a :: int

record blip_info =
  blip_sprite :: int
  blip_color :: int
  blip_pos :: vector3

datatype target_ref = TargetVector vector3 | TargetPlayer nat | TargetVehicle nat

record target_info =
  target_target :: target_ref
  target_type :: string

record item_restriction =
  restriction_label :: string
  inInventory :: bool
  restriction_quantity :: int

text \<open>
  The fields of an \<^verbatim>\<open>Objective\<close> instance. A field the constructor does not assign
  is \<^verbatim>\<open>undefined\<close> until its setter runs: such fields are options. The field
  \<^verbatim>\<open>range\<close> is called \<open>range_f\<close> here, \<open>range\<close> being a constant of HOL.
\<close>

record objective =
  type :: int
  flags :: int
  rewards :: "reward list"
  range_f :: real
  maxProgress :: int
  progress :: int
  word :: "string option"
  pos :: "vector3 option"
  helpText :: "string option"
  everySound :: "string option"
  finishSound :: "string option"
  anim :: "animation option"
  marker :: "marker_info option"
  blip :: "blip_info option"
  target :: "target_info option"
  itemRestrictions :: "item_restriction list option"

text \<open>
  The constructor. \<^verbatim>\<open>getWord()\<close> draws a random entry of the dictionary, which is
  imported from a file outside the sources at hand: the drawn entry is the parameter
  \<open>getWord\<close> (\<open>None\<close> when the dictionary has no entry at the drawn index).
\<close>

definition Objective :: "int \<Rightarrow> int \<Rightarrow> string option \<Rightarrow> objective" where
  "Objective objectiveType objectiveFlags getWord =
     \<lparr> type = objectiveType, flags = objectiveFlags, rewards = [], range_f = 5,
       maxProgress = 5, progress = - 1,
       word = (if objectiveType = 5 then getWord else None),
       pos = None, helpText = None, everySound = None, finishSound = None,
       anim = None, marker = None, blip = None, target = None,
       itemRestrictions = None \<rparr>"

text \<open>
  \<^verbatim>\<open>setPosition(pos)\<close> first lowers \<^verbatim>\<open>pos.z\<close> by 0.5 in the object it was handed
  and then stores that object. The model returns the objective together with the
  caller's vector as the call leaves it.
\<close>

definition setPosition :: "vector3 \<Rightarrow> objective \<Rightarrow> objective \<times> vector3" where
  "setPosition p this =
     (let p = p\<lparr>z := z p - 1 / 2\<rparr>
      in (this\<lparr>pos := Some p\<rparr>, p))"

definition setRange :: "real \<Rightarrow> objective \<Rightarrow> objective" where
  "setRange r this =
     (let r = (if r \<le> 2 then 2 else r)
      in this\<lparr>range_f := r\<rparr>)"

definition setHelpText :: "string \<Rightarrow> objective \<Rightarrow> objective" where
  "setHelpText msg this = this\<lparr>helpText := Some msg\<rparr>"

definition setRewards :: "reward list \<Rightarrow> objective \<Rightarrow> objective" where
  "setRewards arrayOfRewards this = this\<lparr>rewards := arrayOfRewards\<rparr>"

definition setEverySound :: "string \<Rightarrow> objective \<Rightarrow> objective" where
  "setEverySound soundName this = this\<lparr>everySound := Some soundName\<rparr>"

definition setFinishSound :: "string \<Rightarrow> objective \<Rightarrow> objective" where
  "setFinishSound soundName this = this\<lparr>finishSound := Some soundName\<rparr>"

definition setAnimation :: "string \<Rightarrow> string \<Rightarrow> int \<Rightarrow> int \<Rightarrow> objective \<Rightarrow> objective" where
  "setAnimation dict name fl duration this =
     this\<lparr>anim := Some \<lparr> anim_dict = dict, anim_name = name, anim_flags = fl,
                          anim_duration = duration \<rparr>\<rparr>"

definition setMarker ::
  "int \<Rightarrow> vector3 \<Rightarrow> vector3 \<Rightarrow> vector3 \<Rightarrow> vector3 \<Rightarrow> int \<Rightarrow> int \<Rightarrow> int \<Rightarrow> int \<Rightarrow>
   objective \<Rightarrow> objective" where
  "setMarker ty p dir rot scale r g b a this =
     this\<lparr>marker := Some \<lparr> marker_type = ty, marker_pos = p, marker_dir = dir,
                            marker_rot = rot, marker_scale = scale, marker_r = r,
                            marker_g = g, marker_b = b, marker_a = a \<rparr>\<rparr>"

definition setBlip :: "int \<Rightarrow> int \<Rightarrow> vector3 \<Rightarrow> objective \<Rightarrow> objective" where
  "setBlip sprite color p this =
     this\<lparr>blip := Some \<lparr> blip_sprite = sprite, blip_color = color, blip_pos = p \<rparr>\<rparr>"

definition setTarget :: "target_ref \<Rightarrow> string \<Rightarrow> objective \<Rightarrow> objective" where
  "setTarget tg ty this =
     this\<lparr>target := Some \<lparr> target_target = tg, target_type = ty \<rparr>\<rparr>"

definition setItemRestrictions :: "item_restriction list \<Rightarrow> objective \<Rightarrow> objective" where
  "setItemRestrictions arrayOfItems this = this\<lparr>itemRestrictions := Some arrayOfItems\<rparr>"

section \<open>The player and what the code does to it\<close>

text \<open>
  Of the player the code reads \<^verbatim>\<open>pos\<close> and \<^verbatim>\<open>vehicle\<close> and reads and writes
  \<^verbatim>\<open>checking\<close>. Everything else it does with the player is a call into the game
  server (\<^verbatim>\<open>emitMeta\<close>, \<^verbatim>\<open>send\<close>, \<^verbatim>\<open>addItem\<close>, \<^verbatim>\<open>playAnimation\<close>,
  \<^verbatim>\<open>playAudio\<close>), into the skill system (\<^verbatim>\<open>addXP\<close>) or to the console: each
  function of the model returns these calls, in order, as a list of events.
\<close>

record player =
  player_pos :: vector3
  player_vehicle :: "nat option"
  player_checking :: bool

text \<open>An entry of the item catalogue \<^verbatim>\<open>Items\<close> (imported, not under the sources at hand).\<close>

record item_def =
  item_label :: string
  item_stackable :: bool

datatype meta_value =
    Undefined
  | MetaBool bool
  | MetaNumber int
  | MetaJSON objective

datatype event =
    EmitMeta string meta_value
  | Send string
  | AddItem item_def int bool
  | AddXP string int
  | PlayAnimation string string int "int option"
  | PlayAudio string
  | ConsoleLog string

datatype js_error = TypeError

section \<open>The kind strategies\<close>

text \<open>
  \<^verbatim>\<open>playAnimation\<close> passes \<^verbatim>\<open>anim.flag\<close>, a field that \<^verbatim>\<open>setAnimation\<close> never
  writes (it writes \<^verbatim>\<open>flags\<close>): the fourth argument is \<^verbatim>\<open>undefined\<close>, here \<open>None\<close>.
\<close>

definition playAnimation :: "objective \<Rightarrow> event list" where
  "playAnimation objective =
     (case anim objective of
        None \<Rightarrow> []
      | Some a \<Rightarrow> [PlayAnimation (anim_dict a) (anim_name a) (anim_duration a) None])"

definition playEverySound :: "objective \<Rightarrow> event list" where
  "playEverySound objective =
     (case everySound objective of
        None \<Rightarrow> []
      | Some s \<Rightarrow> [PlayAudio s])"

definition capture :: "objective \<Rightarrow> bool \<times> objective \<times> event list" where
  "capture objective =
     (let objective = objective\<lparr>progress := progress objective + 1\<rparr>
      in if progress objective < maxProgress objective
         then (False, objective, playAnimation objective @ playEverySound objective)
         else (True, objective, []))"

definition hold :: "objective \<Rightarrow> bool \<times> objective \<times> event list" where
  "hold objective =
     (let objective = objective\<lparr>progress := progress objective + 1\<rparr>
      in if progress objective < maxProgress objective
         then (False, objective, playAnimation objective @ playEverySound objective)
         else (True, objective, []))"

definition mash :: "objective \<Rightarrow> bool \<times> objective \<times> event list" where
  "mash objective =
     (let objective = objective\<lparr>progress := progress objective + 1\<rparr>
      in if progress objective < maxProgress objective
         then (False, objective, playAnimation objective @ playEverySound objective)
         else (True, objective, []))"

text \<open>
  \<^verbatim>\<open>order\<close> has an empty body: it returns \<^verbatim>\<open>undefined\<close>, which the callers only
  ever test for truth, so the model returns \<open>False\<close>.
\<close>

definition order :: "objective \<Rightarrow> string list \<Rightarrow> bool" where
  "order objective args = False"

section \<open>checkObjective\<close>

text \<open>
  \<^verbatim>\<open>isInRange(player, objective)\<close> reads \<^verbatim>\<open>player.pos\<close>, \<^verbatim>\<open>objective.pos\<close> and
  \<^verbatim>\<open>objective.range\<close>; the model is handed these three values.
\<close>

definition isInRange :: "vector3 \<Rightarrow> vector3 \<Rightarrow> real \<Rightarrow> bool" where
  "isInRange playerPos objectivePos objectiveRange =
     (if distance playerPos objectivePos \<ge> objectiveRange then False else True)"

text \<open>
  \<^verbatim>\<open>checkObjective\<close> is a sequence of four blocks, each of which the model keeps as a
  function of its own so that the state between two blocks can be referred to:
  \<^enum> \<open>checkObjective_position\<close>: \<^verbatim>\<open>if (!this.pos) this.pos = player.pos\<close>; it returns
    the position the objective now has, and the objective;
  \<^enum> \<open>checkObjective_range\<close>: the value of \<^verbatim>\<open>valid\<close> after the range check;
  \<^enum> \<open>checkObjective_modifiers\<close>: \<^verbatim>\<open>valid\<close> and the objective after the three
    modifier checks; \<^verbatim>\<open>!this.progress\<close> holds of a number exactly when it is 0;
  \<^enum> \<open>checkObjective_type\<close>: the dispatch on the objective type.
\<close>

definition checkObjective_position :: "player \<Rightarrow> objective \<Rightarrow> vector3 \<times> objective" where
  "checkObjective_position player this =
     (case pos this of
        None \<Rightarrow> (player_pos player, this\<lparr>pos := Some (player_pos player)\<rparr>)
      | Some q \<Rightarrow> (q, this))"

definition checkObjective_range :: "player \<Rightarrow> vector3 \<Rightarrow> objective \<Rightarrow> bool" where
  "checkObjective_range player q this =
     (let valid = True
      in if type this \<le> 5
         then (if \<not> isInRange (player_pos player) q (range_f this) then False else valid)
         else valid)"

definition checkObjective_modifiers :: "player \<Rightarrow> bool \<Rightarrow> objective \<Rightarrow> bool \<times> objective" where
  "checkObjective_modifiers player valid this =
     (let valid = (if isFlagged (flags this) Modifiers_ON_FOOT \<and> valid
                   then (if player_vehicle player \<noteq> None then False else valid)
                   else valid);
          valid = (if isFlagged (flags this) Modifiers_IN_VEHICLE \<and> valid
                   then (if player_vehicle player = None then False else valid)
                   else valid);
          this = (if isFlagged (flags this) Modifiers_PROGRESS \<and> valid
                  then (if progress this = 0 then this\<lparr>progress := 0\<rparr> else this)
                  else this)
      in (valid, this))"

definition checkObjective_type ::
  "string list \<Rightarrow> bool \<Rightarrow> objective \<Rightarrow> bool \<times> objective \<times> event list" where
  "checkObjective_type args valid this =
     (let (valid, this, ev1) = (if type this = Objectives_CAPTURE \<and> valid
                                then capture this else (valid, this, []));
          (valid, this, ev2) = (if type this = Objectives_HOLD \<and> valid
                                then hold this else (valid, this, []));
          (valid, this, ev3) = (if type this = Objectives_MASH \<and> valid
                                then mash this else (valid, this, []));
          valid = (if type this = Objectives_ORDER \<and> valid
                   then order this args else valid)
      in (valid, this, ev1 @ ev2 @ ev3))"

text \<open>
  The blocks run one after the other: \<open>checkObjective_rangeGate\<close> is the state after
  the first two (\<^verbatim>\<open>valid\<close> and the objective), \<open>checkObjective_gates\<close> the state after
  the first three, and \<open>checkObjective\<close> all four.
\<close>

definition checkObjective_rangeGate :: "player \<Rightarrow> objective \<Rightarrow> bool \<times> objective" where
  "checkObjective_rangeGate player this =
     (let (q, this) = checkObjective_position player this
      in (checkObjective_range player q this, this))"

definition checkObjective_gates :: "player \<Rightarrow> objective \<Rightarrow> bool \<times> objective" where
  "checkObjective_gates player this =
     (let (valid, this) = checkObjective_rangeGate player this
      in checkObjective_modifiers player valid this)"

definition checkObjective ::
  "player \<Rightarrow> string list \<Rightarrow> objective \<Rightarrow> bool \<times> objective \<times> event list" where
  "checkObjective player args this =
     (let (valid, this) = checkObjective_gates player this
      in checkObjective_type args valid this)"

section \<open>attemptObjective and the rewards\<close>

text \<open>
  The loop \<^verbatim>\<open>for (let i = 0; i < reward.quantity; i++)\<close> of the non-stackable
  branch: one \<^verbatim>\<open>addItem\<close> of quantity 1 and one message per round.
\<close>

function addItemLoop :: "item_def \<Rightarrow> int \<Rightarrow> int \<Rightarrow> event list" where
  "addItemLoop item i n =
     (if i < n
      then [AddItem item 1 False, Send (item_label item @ '' was added to your inventory.'')]
           @ addItemLoop item (i + 1) n
      else [])"
  by pat_completeness auto
termination
  by (relation "measure (\<lambda>(item, i, n). nat (n - i))") auto

declare addItemLoop.simps [simp del]

text \<open>
  The callback of \<^verbatim>\<open>this.rewards.forEach\<close>. \<open>Items\<close> is the item catalogue, a
  lookup by key; it is imported from \<^verbatim>\<open>../configuration/items.mjs\<close> and a parameter
  here.
\<close>

definition issueReward :: "(string \<Rightarrow> item_def option) \<Rightarrow> reward \<Rightarrow> event list" where
  "issueReward Items reward =
     (if reward_type reward = ''xp''
      then [AddXP (reward_prop reward) (reward_quantity reward)] else [])
     @
     (if reward_type reward = ''item''
      then (case Items (reward_prop reward) of
              Some item \<Rightarrow>
                if item_stackable item
                then [AddItem item (reward_quantity reward) False,
                      Send (item_label item @ '' was added to your inventory.'')]
                else addItemLoop item 0 (reward_quantity reward)
            | None \<Rightarrow> [ConsoleLog (reward_prop reward @ '' was not found for a reward.'')])
      else [])"

definition attemptObjective ::
  "(string \<Rightarrow> item_def option) \<Rightarrow> player \<Rightarrow> string list \<Rightarrow> objective \<Rightarrow>
   bool \<times> objective \<times> event list" where
  "attemptObjective Items player args this =
     (let (valid, this, ev) = checkObjective player args this
      in if \<not> valid
         then (False, this, ev @ [EmitMeta ''job:Progress'' (MetaNumber (progress this))])
         else (True, this,
               ev
               @ (if length (rewards this) \<ge> 1
                  then concat (map (issueReward Items) (rewards this)) else [])
               @ [EmitMeta ''job:Objective'' Undefined]))"

section \<open>Jobs\<close>

text \<open>
  The constructor leaves \<^verbatim>\<open>this.infinite\<close> unassigned; the field is only ever tested
  for truth and set to \<^verbatim>\<open>true\<close>, so \<^verbatim>\<open>undefined\<close> is \<open>False\<close> here. The
  constructor also stores the job in \<^verbatim>\<open>player.job\<close>: the job a player has is the
  \<open>job option\<close> that \<open>check\<close> below is handed.
\<close>

record job =
  job_name :: string
  objectives :: "objective list"
  infinite :: bool

definition Job :: "string \<Rightarrow> job" where
  "Job name = \<lparr> job_name = name, objectives = [], infinite = False \<rparr>"

definition stringify_head :: "objective list \<Rightarrow> meta_value" where
  \<comment> \<open>\<^verbatim>\<open>JSON.stringify(this.objectives[0])\<close>, which is \<^verbatim>\<open>undefined\<close> on an empty array\<close>
  "stringify_head objs = (case objs of [] \<Rightarrow> Undefined | objective # _ \<Rightarrow> MetaJSON objective)"

definition job_start :: "job \<Rightarrow> event list" where
  "job_start this = [EmitMeta ''job:Objective'' (stringify_head (objectives this))]"

definition job_add :: "objective \<Rightarrow> job \<Rightarrow> job" where
  "job_add objectiveClass this = this\<lparr>objectives := objectives this @ [objectiveClass]\<rparr>"

text \<open>
  \<^verbatim>\<open>Job.next\<close>. \<^verbatim>\<open>this.objectives.shift()\<close> removes and returns the head, and
  returns \<^verbatim>\<open>undefined\<close> on an empty array, which it leaves empty. \<open>objective0\<close> is
  \<^verbatim>\<open>this.objectives[0]\<close> after the first shift; the \<^verbatim>\<open>push\<close> appends at the tail
  of a non-empty array and leaves it the head.
\<close>

definition job_next :: "job \<Rightarrow> job \<times> event list" where
  "job_next this =
     (let lastObjective = (case objectives this of [] \<Rightarrow> None | objective # _ \<Rightarrow> Some objective);
          this = this\<lparr>objectives := tl (objectives this)\<rparr>;
          ev = [EmitMeta ''job:ClearObjective'' (MetaBool True)]
      in case objectives this of
           [] \<Rightarrow> (this, ev @ [EmitMeta ''job:Objective'' Undefined, Send ''Job Complete''])
         | objective0 # _ \<Rightarrow>
             (let this = (if infinite this
                          then this\<lparr>objectives := objectives this
                                      @ (case lastObjective of None \<Rightarrow> [] | Some l \<Rightarrow> [l])\<rparr>
                          else this);
                  this = (if type objective0 = Objectives_INFINITE
                          then this\<lparr>infinite := True, objectives := tl (objectives this)\<rparr>
                          else this)
              in (this, ev @ [EmitMeta ''job:Objective'' (stringify_head (objectives this))])))"

text \<open>
  \<^verbatim>\<open>Job.check\<close>. Reading \<^verbatim>\<open>attemptObjective\<close> off \<^verbatim>\<open>this.objectives[0]\<close> throws a
  TypeError when the array is empty; the exception leaves \<^verbatim>\<open>player.checking\<close> set.
  The result is \<open>Inl\<close> with the error and the state at the throw, or \<open>Inr\<close> with the
  state at the return.
\<close>

type_synonym job_state = "player \<times> job \<times> event list"

definition job_check ::
  "(string \<Rightarrow> item_def option) \<Rightarrow> player \<Rightarrow> string list \<Rightarrow> job \<Rightarrow>
   (js_error \<times> job_state) + job_state" where
  "job_check Items player args this =
     (if player_checking player then Inr (player, this, [])
      else
        let player = player\<lparr>player_checking := True\<rparr>
        in case objectives this of
             [] \<Rightarrow> Inl (TypeError, player, this, [])
           | objective # rest \<Rightarrow>
               (let (done, objective, ev) = attemptObjective Items player args objective;
                    this = this\<lparr>objectives := objective # rest\<rparr>
                in if \<not> done
                   then Inr (player\<lparr>player_checking := False\<rparr>, this, ev)
                   else
                     let player = player\<lparr>player_checking := False\<rparr>;
                         (this, ev') = job_next this
                     in Inr (player, this, ev @ ev')))"

text \<open>The exported \<^verbatim>\<open>check(player)\<close>; \<open>current\<close> is \<^verbatim>\<open>player.job\<close>.\<close>

definition check ::
  "(string \<Rightarrow> item_def option) \<Rightarrow> player \<Rightarrow> job option \<Rightarrow>
   (js_error \<times> player \<times> job option \<times> event list) + (player \<times> job option \<times> event list)" where
  "check Items player current =
     (case current of
        None \<Rightarrow> Inr (player, None, [])
      | Some j \<Rightarrow>
          (case job_check Items player [] j of
             Inl (e, player, j, ev) \<Rightarrow> Inl (e, player, Some j, ev)
           | Inr (player, j, ev) \<Rightarrow> Inr (player, Some j, ev)))"

section \<open>Notions the properties are stated with\<close>

text \<open>
  The objectives that the constructor and the setters can build: a new objective, and
  any objective obtained from one of these by a setter.
\<close>

inductive configured :: "objective \<Rightarrow> bool" where
  configured_new: "configured (Objective objectiveType objectiveFlags getWord)"
| configured_setPosition: "configured this \<Longrightarrow> configured (fst (setPosition p this))"
| configured_setRange: "configured this \<Longrightarrow> configured (setRange r this)"
| configured_setHelpText: "configured this \<Longrightarrow> configured (setHelpText msg this)"
| configured_setRewards: "configured this \<Longrightarrow> configured (setRewards rs this)"
| configured_setEverySound: "configured this \<Longrightarrow> configured (setEverySound s this)"
| configured_setFinishSound: "configured this \<Longrightarrow> configured (setFinishSound s this)"
| configured_setAnimation: "configured this \<Longrightarrow> configured (setAnimation d n fl du this)"
| configured_setMarker:
    "configured this \<Longrightarrow> configured (setMarker ty p dir rot scale r g b a this)"
| configured_setBlip: "configured this \<Longrightarrow> configured (setBlip sprite color p this)"
| configured_setTarget: "configured this \<Longrightarrow> configured (setTarget tg ty this)"
| configured_setItemRestrictions:
    "configured this \<Longrightarrow> configured (setItemRestrictions restrictions this)"

text \<open>
  A run of calls of \<^verbatim>\<open>attemptObjective\<close> on one objective, one call per entry of the
  list, which holds the player as each call finds it. \<open>attempts\<close> lists what each
  call returns and the progress it leaves; \<open>within_gates\<close> says that each call of the
  run passes the range check and the modifier checks.
\<close>

fun attempts ::
  "(string \<Rightarrow> item_def option) \<Rightarrow> string list \<Rightarrow> player list \<Rightarrow> objective \<Rightarrow>
   (bool \<times> int) list" where
  "attempts Items args [] this = []"
| "attempts Items args (player # players) this =
     (let (done, this, ev) = attemptObjective Items player args this
      in (done, progress this) # attempts Items args players this)"

fun within_gates :: "string list \<Rightarrow> player list \<Rightarrow> objective \<Rightarrow> bool" where
  "within_gates args [] this = True"
| "within_gates args (player # players) this =
     (fst (checkObjective_gates player this)
      \<and> within_gates args players (fst (snd (checkObjective player args this))))"

text \<open>\<open>job_next\<close> applied \<open>n\<close> times, each time to the job the previous call left.\<close>

fun nexts :: "nat \<Rightarrow> job \<Rightarrow> job" where
  "nexts 0 this = this"
| "nexts (Suc n) this = nexts n (fst (job_next this))"

text \<open>The objective types whose strategy counts progress: capture, hold and mash.\<close>

definition progressing :: "objective \<Rightarrow> bool" where
  "progressing this \<longleftrightarrow>
     type this = Objectives_CAPTURE \<or> type this = Objectives_HOLD \<or> type this = Objectives_MASH"

text \<open>A player on foot at the point \<open>(a, b, c)\<close>, with no check under way.\<close>

definition on_foot_at :: "real \<Rightarrow> real \<Rightarrow> real \<Rightarrow> player" where
  "on_foot_at a b c =
     \<lparr> player_pos = \<lparr> x = a, y = b, z = c \<rparr>, player_vehicle = None, player_checking = False \<rparr>"

text \<open>An item catalogue with the single entry \<^verbatim>\<open>TrackSuit\<close>, stackable or not.\<close>

definition catalogue :: "bool \<Rightarrow> string \<Rightarrow> item_def option" where
  "catalogue stackable key =
     (if key = ''TrackSuit''
      then Some \<lparr> item_label = ''Track Suit'', item_stackable = stackable \<rparr> else None)"

section \<open>Auxiliary facts\<close>

lemmas eval_defs =
  Objective_def isFlagged_def js_bitand_def Modifiers_PROGRESS_def
  Modifiers_ON_FOOT_def Modifiers_IN_VEHICLE_def
  checkObjective_def checkObjective_gates_def checkObjective_rangeGate_def
  checkObjective_position_def checkObjective_range_def isInRange_def distance_def
  checkObjective_modifiers_def checkObjective_type_def capture_def hold_def mash_def order_def
  Objectives_CAPTURE_def Objectives_HOLD_def Objectives_MASH_def Objectives_ORDER_def
  Objectives_INFINITE_def
  playAnimation_def playEverySound_def attemptObjective_def on_foot_at_def Let_def

lemma distance_self: "distance p p = 0"
  by (simp add: distance_def)

lemma configured_range: "configured this \<Longrightarrow> 2 \<le> range_f this"
  by (induction rule: configured.induct)
     (simp_all add: Objective_def setPosition_def setRange_def setHelpText_def setRewards_def
        setEverySound_def setFinishSound_def setAnimation_def setMarker_def setBlip_def
        setTarget_def setItemRestrictions_def Let_def)

lemma modifiers_invalid: "checkObjective_modifiers player False this = (False, this)"
  by (simp add: checkObjective_modifiers_def)

lemma type_invalid: "checkObjective_type args False this = (False, this, [])"
  by (simp add: checkObjective_type_def)

lemma rangeGate_fails:
  "\<not> fst (checkObjective_rangeGate player this) \<Longrightarrow> \<not> fst (checkObjective player args this)"
  by (cases "checkObjective_rangeGate player this")
     (simp add: checkObjective_def checkObjective_gates_def modifiers_invalid type_invalid)

section \<open>The range clamp (C8)\<close>

text \<open>
  C8. For every input \<open>r\<close> to \<^verbatim>\<open>setRange\<close> with \<open>r \<le> 2\<close> the stored range is exactly
  2, and for every \<open>r > 2\<close> the stored range is \<open>r\<close>.
\<close>

theorem setRange_clamp:
  "(r \<le> 2 \<longrightarrow> range_f (setRange r this) = 2) \<and> (2 < r \<longrightarrow> range_f (setRange r this) = r)"
  by (simp add: setRange_def)

theorem setRange_clamp_witness:
  "(1::real) \<le> 2 \<and> range_f (setRange 1 (Objective 0 0 None)) = 2 \<and>
   (2::real) < 7 \<and> range_f (setRange 7 (Objective 0 0 None)) = 7"
  using setRange_clamp [of 1 "Objective 0 0 None"] setRange_clamp [of 7 "Objective 0 0 None"]
  by simp

section \<open>The reentrancy guard (C9)\<close>

text \<open>
  C9. For a player whose \<^verbatim>\<open>checking\<close> flag is set, \<^verbatim>\<open>Job.check\<close> returns at once:
  it returns normally, the player and the job (its objective queue, the progress of
  the head objective, the infinite-loop flag) are as they were, and no call went out.
  \<^verbatim>\<open>attemptObjective\<close> was not run, since every run of it emits an event
  (\<open>attemptObjective_emits\<close>).
\<close>

theorem job_check_reentrant:
  "player_checking player \<Longrightarrow> job_check Items player args this = Inr (player, this, [])"
  by (simp add: job_check_def)

theorem job_check_reentrant_witness:
  "player_checking \<lparr> player_pos = \<lparr> x = 0, y = 0, z = 0 \<rparr>, player_vehicle = None,
                     player_checking = True \<rparr>
   \<and> job_check (\<lambda>k. None)
        \<lparr> player_pos = \<lparr> x = 0, y = 0, z = 0 \<rparr>, player_vehicle = None, player_checking = True \<rparr>
        [] (job_add (Objective 1 0 None) (Job ''idkwtf''))
      = Inr (\<lparr> player_pos = \<lparr> x = 0, y = 0, z = 0 \<rparr>, player_vehicle = None,
               player_checking = True \<rparr>,
             job_add (Objective 1 0 None) (Job ''idkwtf''), [])"
  using job_check_reentrant
    [of "\<lparr> player_pos = \<lparr> x = 0, y = 0, z = 0 \<rparr>, player_vehicle = None, player_checking = True \<rparr>"
        "\<lambda>k. None" "[]" "job_add (Objective 1 0 None) (Job ''idkwtf'')"]
  by simp

lemma attemptObjective_emits: "snd (snd (attemptObjective Items player args this)) \<noteq> []"
  by (simp add: attemptObjective_def Let_def split: prod.splits)

section \<open>The range gate (C10, C5)\<close>

text \<open>
  C10. For an objective of a navigable kind (type at most 5) with a position, the range
  check of \<^verbatim>\<open>checkObjective\<close> passes if and only if the Euclidean distance from the
  player's position to the objective's is strictly less than the stored range. At a
  distance equal to the range the check fails, and \<^verbatim>\<open>checkObjective\<close> returns false.
\<close>

theorem range_gate_strict:
  assumes "type this \<le> 5" and "pos this = Some q"
  shows "(fst (checkObjective_rangeGate player this)
            \<longleftrightarrow> distance (player_pos player) q < range_f this)
         \<and> (distance (player_pos player) q = range_f this
              \<longrightarrow> \<not> fst (checkObjective_rangeGate player this)
                  \<and> \<not> fst (checkObjective player args this))"
proof -
  have gate: "fst (checkObjective_rangeGate player this)
                \<longleftrightarrow> distance (player_pos player) q < range_f this"
    using assms
    by (simp add: checkObjective_rangeGate_def checkObjective_position_def
        checkObjective_range_def isInRange_def not_le)
  moreover have "\<not> fst (checkObjective player args this)"
    if "distance (player_pos player) q = range_f this"
    using that gate rangeGate_fails [of player this args] by simp
  ultimately show ?thesis by simp
qed

theorem range_gate_strict_witness:
  "type (fst (setPosition \<lparr> x = 0, y = 0, z = 1/2 \<rparr> (Objective 0 0 None))) \<le> 5
   \<and> pos (fst (setPosition \<lparr> x = 0, y = 0, z = 1/2 \<rparr> (Objective 0 0 None)))
       = Some \<lparr> x = 0, y = 0, z = 0 \<rparr>
   \<and> distance \<lparr> x = 3, y = 4, z = 0 \<rparr> \<lparr> x = 0, y = 0, z = 0 \<rparr> = 5
   \<and> \<not> fst (checkObjective_rangeGate
              \<lparr> player_pos = \<lparr> x = 3, y = 4, z = 0 \<rparr>, player_vehicle = None,
                player_checking = False \<rparr>
              (fst (setPosition \<lparr> x = 0, y = 0, z = 1/2 \<rparr> (Objective 0 0 None))))
   \<and> \<not> fst (checkObjective
              \<lparr> player_pos = \<lparr> x = 3, y = 4, z = 0 \<rparr>, player_vehicle = None,
                player_checking = False \<rparr> []
              (fst (setPosition \<lparr> x = 0, y = 0, z = 1/2 \<rparr> (Objective 0 0 None))))"
proof -
  let ?o = "fst (setPosition \<lparr> x = 0, y = 0, z = 1/2 \<rparr> (Objective 0 0 None))"
  let ?p = "\<lparr> player_pos = \<lparr> x = 3, y = 4, z = 0 \<rparr>, player_vehicle = None,
              player_checking = False \<rparr>"
  have t: "type ?o \<le> 5" by (simp add: setPosition_def Objective_def Let_def)
  have q: "pos ?o = Some \<lparr> x = 0, y = 0, z = 0 \<rparr>"
    by (simp add: setPosition_def Objective_def Let_def)
  have r: "range_f ?o = 5" by (simp add: setPosition_def Objective_def Let_def)
  have d: "distance \<lparr> x = 3, y = 4, z = 0 \<rparr> \<lparr> x = 0, y = 0, z = 0 \<rparr> = 5"
    by (simp add: distance_def)
  show ?thesis
    using range_gate_strict [OF t q, of ?p "[]"] t q r d by simp
qed

lemma modifiers_pos: "pos (snd (checkObjective_modifiers player valid this)) = pos this"
  by (simp add: checkObjective_modifiers_def Let_def)

lemma type_pos: "pos (fst (snd (checkObjective_type args valid this))) = pos this"
  by (simp add: checkObjective_type_def capture_def hold_def mash_def Let_def)

lemma check_pos:
  "pos (fst (snd (checkObjective player args this)))
     = pos (snd (checkObjective_rangeGate player this))"
proof -
  obtain v1 this1 where r: "checkObjective_rangeGate player this = (v1, this1)"
    by (cases "checkObjective_rangeGate player this")
  obtain v2 this2 where m: "checkObjective_modifiers player v1 this1 = (v2, this2)"
    by (cases "checkObjective_modifiers player v1 this1")
  have "pos this2 = pos this1" using modifiers_pos [of player v1 this1] m by simp
  then show ?thesis
    by (simp add: checkObjective_def checkObjective_gates_def r m type_pos)
qed

text \<open>
  C5. An objective built by the constructor and the setters whose position was never
  set: the first \<^verbatim>\<open>checkObjective\<close> against a player at a point \<open>P\<close> leaves \<open>P\<close>
  stored as the objective's position when it returns, \<open>P\<close> is already the position
  when the range check runs, and the range check of that call passes, whatever the
  kind.
\<close>

theorem position_defaulting:
  assumes "configured this" and "pos this = None"
  shows "pos (fst (snd (checkObjective player args this))) = Some (player_pos player)
         \<and> pos (snd (checkObjective_rangeGate player this)) = Some (player_pos player)
         \<and> fst (checkObjective_rangeGate player this)"
proof -
  have "2 \<le> range_f this" using assms(1) by (rule configured_range)
  then have "distance (player_pos player) (player_pos player) < range_f this"
    by (simp add: distance_self)
  then have "pos (snd (checkObjective_rangeGate player this)) = Some (player_pos player)
         \<and> fst (checkObjective_rangeGate player this)"
    using assms(2)
    by (simp add: checkObjective_rangeGate_def checkObjective_position_def
        checkObjective_range_def isInRange_def)
  then show ?thesis by (simp add: check_pos)
qed

theorem position_defaulting_witness:
  "configured (setRange 1 (Objective 1 0 None)) \<and> pos (setRange 1 (Objective 1 0 None)) = None
   \<and> pos (fst (snd (checkObjective (on_foot_at 3 4 0) [] (setRange 1 (Objective 1 0 None)))))
     = Some \<lparr> x = 3, y = 4, z = 0 \<rparr>
   \<and> pos (snd (checkObjective_rangeGate (on_foot_at 3 4 0) (setRange 1 (Objective 1 0 None))))
     = Some \<lparr> x = 3, y = 4, z = 0 \<rparr>
   \<and> fst (checkObjective_rangeGate (on_foot_at 3 4 0) (setRange 1 (Objective 1 0 None)))"
proof -
  have c: "configured (setRange 1 (Objective 1 0 None))"
    by (intro configured.intros)
  have n: "pos (setRange 1 (Objective 1 0 None)) = None"
    by (simp add: setRange_def Objective_def)
  have p: "player_pos (on_foot_at 3 4 0) = \<lparr> x = 3, y = 4, z = 0 \<rparr>"
    by (simp add: on_foot_at_def)
  show ?thesis
    using position_defaulting [OF c n, of "on_foot_at 3 4 0" "[]"] c n p by simp
qed

section \<open>The setters (C7)\<close>

text \<open>
  C7, as the code has it. Every setter but two stores its argument (or the record of
  its arguments) in one field and leaves every other field as it was; restoring that
  one field gives the objective back. \<^verbatim>\<open>setRange\<close> stores 2 for an argument of at most
  2. \<^verbatim>\<open>setPosition(p)\<close> lowers \<open>z\<close> by 0.5 in the caller's vector and stores that
  vector: the stored position is \<open>p\<close> with \<open>z\<close> lowered by 0.5, and so is the caller's
  vector after the call. No setter has an error branch.
\<close>

theorem setters_assign:
  "pos (fst (setPosition p this)) = Some (p\<lparr>z := z p - 1 / 2\<rparr>)
   \<and> snd (setPosition p this) = p\<lparr>z := z p - 1 / 2\<rparr>
   \<and> (fst (setPosition p this))\<lparr>pos := pos this\<rparr> = this
   \<and> range_f (setRange r this) = (if r \<le> 2 then 2 else r)
   \<and> (setRange r this)\<lparr>range_f := range_f this\<rparr> = this
   \<and> helpText (setHelpText msg this) = Some msg
   \<and> (setHelpText msg this)\<lparr>helpText := helpText this\<rparr> = this
   \<and> rewards (setRewards rs this) = rs
   \<and> (setRewards rs this)\<lparr>rewards := rewards this\<rparr> = this
   \<and> everySound (setEverySound s this) = Some s
   \<and> (setEverySound s this)\<lparr>everySound := everySound this\<rparr> = this
   \<and> finishSound (setFinishSound s this) = Some s
   \<and> (setFinishSound s this)\<lparr>finishSound := finishSound this\<rparr> = this
   \<and> anim (setAnimation d n fl du this)
       = Some \<lparr> anim_dict = d, anim_name = n, anim_flags = fl, anim_duration = du \<rparr>
   \<and> (setAnimation d n fl du this)\<lparr>anim := anim this\<rparr> = this
   \<and> marker (setMarker ty mp dir rot scale r' g b a this)
       = Some \<lparr> marker_type = ty, marker_pos = mp, marker_dir = dir, marker_rot = rot,
                marker_scale = scale, marker_r = r', marker_g = g, marker_b = b,
                marker_a = a \<rparr>
   \<and> (setMarker ty mp dir rot scale r' g b a this)\<lparr>marker := marker this\<rparr> = this
   \<and> blip (setBlip sprite color bp this)
       = Some \<lparr> blip_sprite = sprite, blip_color = color, blip_pos = bp \<rparr>
   \<and> (setBlip sprite color bp this)\<lparr>blip := blip this\<rparr> = this
   \<and> target (setTarget tg tty this) = Some \<lparr> target_target = tg, target_type = tty \<rparr>
   \<and> (setTarget tg tty this)\<lparr>target := target this\<rparr> = this
   \<and> itemRestrictions (setItemRestrictions restrictions this) = Some restrictions
   \<and> (setItemRestrictions restrictions this)\<lparr>itemRestrictions := itemRestrictions this\<rparr>
       = this"
  by (simp add: setPosition_def setRange_def setHelpText_def setRewards_def
      setEverySound_def setFinishSound_def setAnimation_def setMarker_def setBlip_def
      setTarget_def setItemRestrictions_def Let_def)

text \<open>
  The claim as first stated, that the position stored by \<^verbatim>\<open>setPosition(p)\<close> is \<open>p\<close> as
  passed and that nothing else is modified, fails at \<open>p = (1, 2, 3)\<close>: the stored
  position is \<open>(1, 2, 2.5)\<close>, and the caller's vector is no longer \<open>(1, 2, 3)\<close>.
\<close>

theorem setPosition_counterexample:
  "pos (fst (setPosition \<lparr> x = 1, y = 2, z = 3 \<rparr> (Objective 0 1 None)))
     \<noteq> Some \<lparr> x = 1, y = 2, z = 3 \<rparr>
   \<and> snd (setPosition \<lparr> x = 1, y = 2, z = 3 \<rparr> (Objective 0 1 None))
     \<noteq> \<lparr> x = 1, y = 2, z = 3 \<rparr>"
  by (simp add: setPosition_def Let_def)

section \<open>Progress (C4, C1)\<close>

lemma gates_progress: "progress (snd (checkObjective_gates player this)) = progress this"
  by (simp add: checkObjective_gates_def checkObjective_rangeGate_def
      checkObjective_position_def checkObjective_modifiers_def Let_def split: option.splits)

lemma gates_fields:
  "type (snd (checkObjective_gates player this)) = type this"
  "maxProgress (snd (checkObjective_gates player this)) = maxProgress this"
  "flags (snd (checkObjective_gates player this)) = flags this"
  "rewards (snd (checkObjective_gates player this)) = rewards this"
  by (simp_all add: checkObjective_gates_def checkObjective_rangeGate_def
      checkObjective_position_def checkObjective_modifiers_def Let_def split: option.splits)

text \<open>
  C4. The objective \<^verbatim>\<open>new Objective(1, 4)\<close> (capture, with the PROGRESS modifier) has
  the progress -1 of the constructor. Checked against a player on foot at the point
  that becomes its position, it passes the range and modifier checks, and its progress
  is still -1 when the dispatch on the type begins: \<^verbatim>\<open>!this.progress\<close> is false of
  -1. The whole call leaves the progress at 0, where an initialised counter would be
  at 1.
\<close>

theorem progress_not_initialised:
  "isFlagged (flags (Objective 1 4 None)) Modifiers_PROGRESS
   \<and> progress (Objective 1 4 None) = - 1
   \<and> fst (checkObjective_gates
        \<lparr> player_pos = \<lparr> x = 0, y = 0, z = 0 \<rparr>, player_vehicle = None, player_checking = False \<rparr>
        (Objective 1 4 None))
   \<and> progress (snd (checkObjective_gates
        \<lparr> player_pos = \<lparr> x = 0, y = 0, z = 0 \<rparr>, player_vehicle = None, player_checking = False \<rparr>
        (Objective 1 4 None))) = - 1
   \<and> progress (fst (snd (checkObjective
        \<lparr> player_pos = \<lparr> x = 0, y = 0, z = 0 \<rparr>, player_vehicle = None, player_checking = False \<rparr>
        [] (Objective 1 4 None)))) = 0"
  by (simp add: Objective_def isFlagged_def js_bitand_def Modifiers_PROGRESS_def
      Modifiers_ON_FOOT_def Modifiers_IN_VEHICLE_def
      checkObjective_def checkObjective_gates_def checkObjective_rangeGate_def
      checkObjective_position_def checkObjective_range_def isInRange_def distance_def
      checkObjective_modifiers_def checkObjective_type_def capture_def
      Objectives_CAPTURE_def Objectives_HOLD_def Objectives_MASH_def Objectives_ORDER_def
      playAnimation_def playEverySound_def Let_def)

lemma type_step:
  assumes "progressing this"
  shows "fst (checkObjective_type args True this) = (\<not> progress this + 1 < maxProgress this)"
    and "progress (fst (snd (checkObjective_type args True this))) = progress this + 1"
    and "type (fst (snd (checkObjective_type args True this))) = type this"
    and "maxProgress (fst (snd (checkObjective_type args True this))) = maxProgress this"
    and "flags (fst (snd (checkObjective_type args True this))) = flags this"
  using assms
  by (auto simp add: progressing_def checkObjective_type_def capture_def hold_def mash_def
      Objectives_CAPTURE_def Objectives_HOLD_def Objectives_MASH_def Objectives_ORDER_def
      Let_def)

lemma check_step:
  assumes "progressing this" and "fst (checkObjective_gates player this)"
  shows "fst (checkObjective player args this) = (\<not> progress this + 1 < maxProgress this)"
    and "progress (fst (snd (checkObjective player args this))) = progress this + 1"
    and "progressing (fst (snd (checkObjective player args this)))"
    and "maxProgress (fst (snd (checkObjective player args this))) = maxProgress this"
    and "flags (fst (snd (checkObjective player args this))) = flags this"
proof -
  obtain this' where g: "checkObjective_gates player this = (True, this')"
    using assms(2) by (cases "checkObjective_gates player this") simp
  have f: "progress this' = progress this" "type this' = type this"
    "maxProgress this' = maxProgress this" "flags this' = flags this"
    using gates_progress [of player this] gates_fields [of player this] g by simp_all
  then have p: "progressing this'" using assms(1) by (simp add: progressing_def)
  have c: "checkObjective player args this = checkObjective_type args True this'"
    by (simp add: checkObjective_def g)
  show "fst (checkObjective player args this) = (\<not> progress this + 1 < maxProgress this)"
    and "progress (fst (snd (checkObjective player args this))) = progress this + 1"
    and "progressing (fst (snd (checkObjective player args this)))"
    and "maxProgress (fst (snd (checkObjective player args this))) = maxProgress this"
    and "flags (fst (snd (checkObjective player args this))) = flags this"
    using type_step [OF p, of args] f assms(1) by (simp_all add: c progressing_def)
qed

lemma attempt_check:
  "fst (attemptObjective Items player args this) = fst (checkObjective player args this)"
  "fst (snd (attemptObjective Items player args this)) = fst (snd (checkObjective player args this))"
  by (simp_all add: attemptObjective_def Let_def split: prod.splits)

lemma attempts_progressing:
  "progressing this \<Longrightarrow> within_gates args players this \<Longrightarrow>
   attempts Items args players this
     = map (\<lambda>i. (\<not> progress this + int i + 1 < maxProgress this, progress this + int i + 1))
         [0..<length players]"
proof (induction players arbitrary: this)
  case Nil
  then show ?case by simp
next
  case (Cons player players)
  let ?this' = "fst (snd (checkObjective player args this))"
  have g: "fst (checkObjective_gates player this)" and w: "within_gates args players ?this'"
    using Cons.prems(2) by simp_all
  note s = check_step [OF Cons.prems(1) g, of args]
  have ih: "attempts Items args players ?this'
     = map (\<lambda>i. (\<not> progress ?this' + int i + 1 < maxProgress ?this', progress ?this' + int i + 1))
         [0..<length players]"
    using Cons.IH [OF s(3) w] .
  have a: "attempts Items args (player # players) this
     = (fst (checkObjective player args this), progress ?this') # attempts Items args players ?this'"
    using attempt_check [of Items player args this]
    by (cases "attemptObjective Items player args this") simp
  have m: "map (\<lambda>i. (\<not> progress this + int i + 1 < maxProgress this, progress this + int i + 1))
         [0..<length (player # players)]
     = (\<not> progress this + 1 < maxProgress this, progress this + 1)
       # map (\<lambda>i. (\<not> progress this + 1 + int i + 1 < maxProgress this, progress this + 1 + int i + 1))
         [0..<length players]"
    by (simp add: upt_conv_Cons map_Suc_upt [symmetric] del: upt_Suc add: algebra_simps)
  show ?case
    unfolding a ih m using s by simp
qed

text \<open>
  C1, as the code has it. An objective of type capture, hold or mash with
  \<^verbatim>\<open>maxProgress = 5\<close>, the progress -1 of the constructor and no PROGRESS modifier:
  of six calls of \<^verbatim>\<open>attemptObjective\<close> that each pass the range and modifier checks,
  the first five return false and leave the progress at 0, 1, 2, 3, 4, and the sixth
  takes the progress from 4 to 5 and returns true.
\<close>

theorem six_attempts:
  assumes "type this = Objectives_CAPTURE \<or> type this = Objectives_HOLD
           \<or> type this = Objectives_MASH"
    and "maxProgress this = 5" and "progress this = - 1"
    and "\<not> isFlagged (flags this) Modifiers_PROGRESS"
    and "length players = 6" and "within_gates args players this"
  shows "attempts Items args players this
         = [(False, 0), (False, 1), (False, 2), (False, 3), (False, 4), (True, 5)]"
proof -
  have p: "progressing this" using assms(1) by (simp add: progressing_def)
  have u: "[0..<6] = [0, 1, 2, 3, 4, 5::nat]" by (simp add: upt_rec)
  show ?thesis
    using attempts_progressing [OF p assms(6), of Items] assms(2,3,5) by (simp add: u)
qed


theorem six_attempts_witness:
  "type (Objective 2 1 None) = Objectives_HOLD
   \<and> maxProgress (Objective 2 1 None) = 5 \<and> progress (Objective 2 1 None) = - 1
   \<and> \<not> isFlagged (flags (Objective 2 1 None)) Modifiers_PROGRESS
   \<and> within_gates []
       [on_foot_at 0 0 0, on_foot_at 1 0 0, on_foot_at 0 1 0, on_foot_at 0 0 1,
        on_foot_at 0 0 0, on_foot_at 2 0 0]
       (Objective 2 1 None)
   \<and> attempts (\<lambda>k. None) []
       [on_foot_at 0 0 0, on_foot_at 1 0 0, on_foot_at 0 1 0, on_foot_at 0 0 1,
        on_foot_at 0 0 0, on_foot_at 2 0 0]
       (Objective 2 1 None)
     = [(False, 0), (False, 1), (False, 2), (False, 3), (False, 4), (True, 5)]"
proof -
  let ?ps = "[on_foot_at 0 0 0, on_foot_at 1 0 0, on_foot_at 0 1 0, on_foot_at 0 0 1,
        on_foot_at 0 0 0, on_foot_at 2 0 0]"
  let ?o = "Objective 2 1 None"
  have t: "type ?o = Objectives_CAPTURE \<or> type ?o = Objectives_HOLD \<or> type ?o = Objectives_MASH"
    by (simp add: Objective_def Objectives_HOLD_def)
  have m: "maxProgress ?o = 5" and p: "progress ?o = - 1" by (simp_all add: Objective_def)
  have f: "\<not> isFlagged (flags ?o) Modifiers_PROGRESS"
    by (simp add: Objective_def isFlagged_def js_bitand_def Modifiers_PROGRESS_def)
  have l: "length ?ps = 6" by simp
  have w: "within_gates [] ?ps ?o" by (simp add: eval_defs)
  have h: "type ?o = Objectives_HOLD" by (simp add: Objective_def Objectives_HOLD_def)
  show ?thesis
    using six_attempts [OF t m p f l w, of "\<lambda>k. None"] h m p f w by simp
qed

text \<open>
  The claim as first stated, that five such calls are enough and leave the progress at
  1, 2, 3, 4, 5, fails for \<^verbatim>\<open>new Objective(1, 0)\<close>: the five calls below all pass the
  range and modifier checks, all return false, and leave the progress at 0, 1, 2, 3, 4.
\<close>

theorem five_attempts_counterexample:
  "within_gates []
     [on_foot_at 0 0 0, on_foot_at 1 0 0, on_foot_at 0 1 0, on_foot_at 0 0 1, on_foot_at 0 0 0]
     (Objective 1 0 None)
   \<and> attempts (\<lambda>k. None) []
     [on_foot_at 0 0 0, on_foot_at 1 0 0, on_foot_at 0 1 0, on_foot_at 0 0 1, on_foot_at 0 0 0]
     (Objective 1 0 None)
     = [(False, 0), (False, 1), (False, 2), (False, 3), (False, 4)]"
  by (simp add: eval_defs)


section \<open>Advancing a job (C2, C3)\<close>

text \<open>
  C2, as the code has it. A job with the queue \<open>[A, B, M, C]\<close>, where \<open>M\<close> is an
  infinite marker and \<open>B\<close> and \<open>C\<close> are not, and with the infinite flag unset. When
  \<open>A\<close> completes, \<^verbatim>\<open>next\<close> drops \<open>A\<close> and \<open>B\<close> is the head. When \<open>B\<close> completes,
  \<^verbatim>\<open>next\<close> drops \<open>B\<close>, sets the infinite flag, drops the marker without publishing
  it as a step, and publishes \<open>C\<close>, now the head and the whole queue: \<open>A\<close> and \<open>B\<close>,
  completed before the flag was set, are not in the queue any more.
\<close>

theorem infinite_marker_consumed:
  assumes "type M = Objectives_INFINITE"
    and "type B \<noteq> Objectives_INFINITE" and "type C \<noteq> Objectives_INFINITE"
  shows "nexts 1 \<lparr> job_name = name, objectives = [A, B, M, C], infinite = False \<rparr>
           = \<lparr> job_name = name, objectives = [B, M, C], infinite = False \<rparr>
         \<and> nexts 2 \<lparr> job_name = name, objectives = [A, B, M, C], infinite = False \<rparr>
           = \<lparr> job_name = name, objectives = [C], infinite = True \<rparr>
         \<and> snd (job_next \<lparr> job_name = name, objectives = [B, M, C], infinite = False \<rparr>)
           = [EmitMeta ''job:ClearObjective'' (MetaBool True),
              EmitMeta ''job:Objective'' (MetaJSON C)]"
proof -
  have one: "job_next \<lparr> job_name = name, objectives = [A, B, M, C], infinite = False \<rparr>
      = (\<lparr> job_name = name, objectives = [B, M, C], infinite = False \<rparr>,
         [EmitMeta ''job:ClearObjective'' (MetaBool True),
          EmitMeta ''job:Objective'' (MetaJSON B)])"
    using assms(2) by (simp add: job_next_def stringify_head_def Let_def)
  have two: "job_next \<lparr> job_name = name, objectives = [B, M, C], infinite = False \<rparr>
      = (\<lparr> job_name = name, objectives = [C], infinite = True \<rparr>,
         [EmitMeta ''job:ClearObjective'' (MetaBool True),
          EmitMeta ''job:Objective'' (MetaJSON C)])"
    using assms(1) by (simp add: job_next_def stringify_head_def Let_def)
  have n1: "nexts 1 j = fst (job_next j)" for j
    using nexts.simps(2) [of 0 j] by simp
  have n2: "nexts 2 j = fst (job_next (fst (job_next j)))" for j
    using nexts.simps(2) [of 1 j] by (simp add: n1 numeral_2_eq_2)
  show ?thesis by (simp add: n1 n2 one two)
qed

theorem infinite_marker_consumed_witness:
  "type (Objective 6 1 None) = Objectives_INFINITE
   \<and> type (Objective 0 1 None) \<noteq> Objectives_INFINITE
   \<and> type (Objective 1 1 None) \<noteq> Objectives_INFINITE
   \<and> nexts 2 \<lparr> job_name = ''idkwtf'',
               objectives = [Objective 0 0 None, Objective 0 1 None, Objective 6 1 None,
                             Objective 1 1 None],
               infinite = False \<rparr>
     = \<lparr> job_name = ''idkwtf'', objectives = [Objective 1 1 None], infinite = True \<rparr>"
proof -
  have m: "type (Objective 6 1 None) = Objectives_INFINITE"
    and b: "type (Objective 0 1 None) \<noteq> Objectives_INFINITE"
    and c: "type (Objective 1 1 None) \<noteq> Objectives_INFINITE"
    by (simp_all add: Objective_def Objectives_INFINITE_def)
  show ?thesis
    using infinite_marker_consumed [OF m b c, of "''idkwtf''" "Objective 0 0 None"] m b c
    by simp
qed

text \<open>
  The claim as first stated, that after \<open>C\<close> completes \<open>C\<close> is at the tail again and
  \<open>A\<close> is the head, fails on the job of the \<^verbatim>\<open>test\<close> command's shape below: the third
  \<^verbatim>\<open>next\<close> leaves the queue empty and reports the job complete.
\<close>

theorem no_recycling_counterexample:
  "objectives (nexts 3 \<lparr> job_name = ''idkwtf'',
                 objectives = [Objective 0 0 None, Objective 0 1 None, Objective 6 1 None,
                               Objective 1 1 None],
                 infinite = False \<rparr>) = []
   \<and> snd (job_next (nexts 2 \<lparr> job_name = ''idkwtf'',
                 objectives = [Objective 0 0 None, Objective 0 1 None, Objective 6 1 None,
                               Objective 1 1 None],
                 infinite = False \<rparr>))
     = [EmitMeta ''job:ClearObjective'' (MetaBool True), EmitMeta ''job:Objective'' Undefined,
        Send ''Job Complete'']"
  by (simp add: numeral_3_eq_3 numeral_2_eq_2 job_next_def stringify_head_def Let_def
      Objective_def Objectives_INFINITE_def)

text \<open>
  C3. A job with the single objective \<^verbatim>\<open>new Objective(0, 0)\<close> and a player standing
  on foot: the first \<^verbatim>\<open>check\<close> completes the objective, and \<^verbatim>\<open>next\<close> publishes
  "no objective" and sends the completion message, as the claim says. The next
  \<^verbatim>\<open>check\<close> on the emptied job does not return: it throws a TypeError with
  \<^verbatim>\<open>player.checking\<close> left set, through \<^verbatim>\<open>Job.check\<close> and through the exported
  \<^verbatim>\<open>check\<close> alike.
\<close>

theorem check_after_completion_throws:
  "job_check (\<lambda>k. None) (on_foot_at 0 0 0) [] (job_add (Objective 0 0 None) (Job ''idkwtf''))
     = Inr (on_foot_at 0 0 0, Job ''idkwtf'',
            [EmitMeta ''job:Objective'' Undefined,
             EmitMeta ''job:ClearObjective'' (MetaBool True),
             EmitMeta ''job:Objective'' Undefined,
             Send ''Job Complete''])
   \<and> job_check (\<lambda>k. None) (on_foot_at 0 0 0) [] (Job ''idkwtf'')
     = Inl (TypeError, (on_foot_at 0 0 0)\<lparr>player_checking := True\<rparr>, Job ''idkwtf'', [])
   \<and> check (\<lambda>k. None) (on_foot_at 0 0 0) (Some (Job ''idkwtf''))
     = Inl (TypeError, (on_foot_at 0 0 0)\<lparr>player_checking := True\<rparr>, Some (Job ''idkwtf''), [])"
  by (simp add: job_check_def check_def job_add_def Job_def job_next_def eval_defs)

lemma job_check_empty:
  "\<not> player_checking player \<Longrightarrow> objectives this = [] \<Longrightarrow>
   job_check Items player args this
     = Inl (TypeError, player\<lparr>player_checking := True\<rparr>, this, [])"
  by (simp add: job_check_def)


section \<open>Issuing rewards (C6)\<close>

lemma addItemLoop_3:
  "addItemLoop item 0 3
     = [AddItem item 1 False, Send (item_label item @ '' was added to your inventory.''),
        AddItem item 1 False, Send (item_label item @ '' was added to your inventory.''),
        AddItem item 1 False, Send (item_label item @ '' was added to your inventory.'')]"
proof -
  have "addItemLoop item 3 3 = []" by (simp add: addItemLoop.simps [of item 3 3])
  then have "addItemLoop item 2 3
     = [AddItem item 1 False, Send (item_label item @ '' was added to your inventory.'')]"
    by (simp add: addItemLoop.simps [of item 2 3])
  then have "addItemLoop item 1 3
     = [AddItem item 1 False, Send (item_label item @ '' was added to your inventory.''),
        AddItem item 1 False, Send (item_label item @ '' was added to your inventory.'')]"
    by (simp add: addItemLoop.simps [of item 1 3])
  then show ?thesis
    by (simp add: addItemLoop.simps [of item 0 3])
qed

lemma type_rewards:
  "rewards (fst (snd (checkObjective_type args valid this))) = rewards this"
  by (simp add: checkObjective_type_def capture_def hold_def mash_def Let_def)

lemma type_valid_silent:
  "fst (checkObjective_type args valid this) \<Longrightarrow> snd (snd (checkObjective_type args valid this)) = []"
  by (auto simp add: checkObjective_type_def capture_def hold_def mash_def order_def Let_def
      Objectives_CAPTURE_def Objectives_HOLD_def Objectives_MASH_def Objectives_ORDER_def
      split: if_splits)

lemma check_rewards: "rewards (fst (snd (checkObjective player args this))) = rewards this"
  using gates_fields(4) [of player this]
  by (cases "checkObjective_gates player this") (simp add: checkObjective_def type_rewards)

lemma check_valid_silent:
  "fst (checkObjective player args this) \<Longrightarrow> snd (snd (checkObjective player args this)) = []"
  by (cases "checkObjective_gates player this") (simp add: checkObjective_def type_valid_silent)

lemma attempt_success:
  assumes "fst (checkObjective player args this)"
  shows "snd (snd (attemptObjective Items player args this))
         = (if length (rewards this) \<ge> 1
            then concat (map (issueReward Items) (rewards this)) else [])
           @ [EmitMeta ''job:Objective'' Undefined]"
  using assms check_rewards [of player args this] check_valid_silent [of player args this]
  by (cases "checkObjective player args this") (simp add: attemptObjective_def)

text \<open>
  C6. An objective whose only reward is an item reward of quantity 3 for a key the
  catalogue knows, at a successful \<^verbatim>\<open>attemptObjective\<close>. If the item is stackable
  there is one \<^verbatim>\<open>addItem\<close> call, of quantity 3 (and one message). If it is not, there
  are three \<^verbatim>\<open>addItem\<close> calls of quantity 1, each followed by a message: three
  messages. The call ends with the \<^verbatim>\<open>job:Objective\<close> event and does nothing else.
\<close>

theorem item_reward_of_three:
  assumes "rewards this = [\<lparr> reward_type = ''item'', reward_prop = key, reward_quantity = 3 \<rparr>]"
    and "Items key = Some item"
    and "fst (checkObjective player args this)"
  shows "(item_stackable item \<longrightarrow>
            snd (snd (attemptObjective Items player args this))
            = [AddItem item 3 False, Send (item_label item @ '' was added to your inventory.''),
               EmitMeta ''job:Objective'' Undefined])
         \<and> (\<not> item_stackable item \<longrightarrow>
            snd (snd (attemptObjective Items player args this))
            = [AddItem item 1 False, Send (item_label item @ '' was added to your inventory.''),
               AddItem item 1 False, Send (item_label item @ '' was added to your inventory.''),
               AddItem item 1 False, Send (item_label item @ '' was added to your inventory.''),
               EmitMeta ''job:Objective'' Undefined])"
  using assms(1,2)
  by (simp add: attempt_success [OF assms(3)] issueReward_def addItemLoop_3)


theorem item_reward_of_three_witness:
  "rewards (setRewards
       [\<lparr> reward_type = ''item'', reward_prop = ''TrackSuit'', reward_quantity = 3 \<rparr>]
       (Objective 0 1 None))
     = [\<lparr> reward_type = ''item'', reward_prop = ''TrackSuit'', reward_quantity = 3 \<rparr>]
   \<and> catalogue True ''TrackSuit''
     = Some \<lparr> item_label = ''Track Suit'', item_stackable = True \<rparr>
   \<and> catalogue False ''TrackSuit''
     = Some \<lparr> item_label = ''Track Suit'', item_stackable = False \<rparr>
   \<and> fst (checkObjective (on_foot_at 0 0 0) []
       (setRewards [\<lparr> reward_type = ''item'', reward_prop = ''TrackSuit'', reward_quantity = 3 \<rparr>]
          (Objective 0 1 None)))
   \<and> snd (snd (attemptObjective (catalogue True) (on_foot_at 0 0 0) []
       (setRewards [\<lparr> reward_type = ''item'', reward_prop = ''TrackSuit'', reward_quantity = 3 \<rparr>]
          (Objective 0 1 None))))
     = [AddItem \<lparr> item_label = ''Track Suit'', item_stackable = True \<rparr> 3 False,
        Send ''Track Suit was added to your inventory.'',
        EmitMeta ''job:Objective'' Undefined]
   \<and> snd (snd (attemptObjective (catalogue False) (on_foot_at 0 0 0) []
       (setRewards [\<lparr> reward_type = ''item'', reward_prop = ''TrackSuit'', reward_quantity = 3 \<rparr>]
          (Objective 0 1 None))))
     = [AddItem \<lparr> item_label = ''Track Suit'', item_stackable = False \<rparr> 1 False,
        Send ''Track Suit was added to your inventory.'',
        AddItem \<lparr> item_label = ''Track Suit'', item_stackable = False \<rparr> 1 False,
        Send ''Track Suit was added to your inventory.'',
        AddItem \<lparr> item_label = ''Track Suit'', item_stackable = False \<rparr> 1 False,
        Send ''Track Suit was added to your inventory.'',
        EmitMeta ''job:Objective'' Undefined]"
proof -
  let ?r = "[\<lparr> reward_type = ''item'', reward_prop = ''TrackSuit'', reward_quantity = 3 \<rparr>]"
  let ?o = "setRewards ?r (Objective 0 1 None)"
  have r: "rewards ?o = ?r" by (simp add: setRewards_def)
  have v: "fst (checkObjective (on_foot_at 0 0 0) [] ?o)"
    by (simp add: setRewards_def eval_defs)
  have s: "catalogue True ''TrackSuit''
             = Some \<lparr> item_label = ''Track Suit'', item_stackable = True \<rparr>"
    and n: "catalogue False ''TrackSuit''
             = Some \<lparr> item_label = ''Track Suit'', item_stackable = False \<rparr>"
    by (simp_all add: catalogue_def)
  show ?thesis
    using item_reward_of_three [where Items = "catalogue True", OF r s v]
      item_reward_of_three [where Items = "catalogue False", OF r n v] r s n v
    by simp
qed

end
